theory Spec2Isabelle
  imports Main
begin

section \<open>Python values shared by the scraper and the cleaning recipe\<close>

text \<open>
  The exceptions the two programs can meet. \<open>HTTPError\<close> is
  \<^verbatim>\<open>requests.exceptions.HTTPError\<close> and \<open>MaxRetryError\<close> is
  \<^verbatim>\<open>urllib3.exceptions.MaxRetryError\<close>, the two classes \<^verbatim>\<open>main.py\<close> imports and
  names in its \<^verbatim>\<open>except\<close> clause. \<open>ConnectionError\<close> and \<open>Timeout\<close> are their siblings
  in \<^verbatim>\<open>requests.exceptions\<close> (neither is a subclass of the two caught classes). The
  others are Python's built-in exceptions.
\<close>

datatype py_exception =
    HTTPError | MaxRetryError | ConnectionError | Timeout
  | KeyError | IndexError | AttributeError | TypeError | ValueError

text \<open>
  A function that can raise returns the exception on the left and its value on the
  right. \<open>and_then\<close> runs the next statement only when the previous one did not raise.
  The source names its functions with a leading underscore, which a name cannot have
  here: \<^verbatim>\<open>_build_link\<close> is \<open>build_link\<close>, and so on.
\<close>

definition and_then :: "py_exception + 'a \<Rightarrow> ('a \<Rightarrow> py_exception + 'b) \<Rightarrow> py_exception + 'b" where
  "and_then r f = (case r of Inl e \<Rightarrow> Inl e | Inr x \<Rightarrow> f x)"

text \<open>
  \<^verbatim>\<open>Series.apply(f)\<close> and a \<^verbatim>\<open>for\<close> loop over a list: \<open>f\<close> is called on the elements in
  order, and the first exception ends the whole call.
\<close>

fun traverse :: "('a \<Rightarrow> py_exception + 'b) \<Rightarrow> 'a list \<Rightarrow> py_exception + 'b list" where
  "traverse f [] = Inr []"
| "traverse f (x # xs) =
     (case f x of
        Inl e \<Rightarrow> Inl e
      | Inr y \<Rightarrow> (case traverse f xs of Inl e \<Rightarrow> Inl e | Inr ys \<Rightarrow> Inr (y # ys)))"

text \<open>\<^verbatim>\<open>str.split(sep)\<close> for a one-character separator, and \<^verbatim>\<open>sep.join(words)\<close>.\<close>

fun split_on :: "char \<Rightarrow> string \<Rightarrow> string list" where
  "split_on sep [] = [[]]"
| "split_on sep (c # cs) =
     (if c = sep then [] # split_on sep cs
      else (case split_on sep cs of [] \<Rightarrow> [[c]] | w # ws \<Rightarrow> (c # w) # ws))"

fun join :: "string \<Rightarrow> string list \<Rightarrow> string" where
  "join sep [] = []"
| "join sep [w] = w"
| "join sep (w # ws) = w @ sep @ join sep ws"

section \<open>Regular expressions, as far as the three patterns of the source need them\<close>

text \<open>
  An atom matches one character: a literal, \<^verbatim>\<open>.\<close> (any character but a line feed, since
  no flag is given) or a negated class \<^verbatim>\<open>[^c]\<close>. An item is an atom, an atom with
  \<^verbatim>\<open>?\<close> or \<^verbatim>\<open>+\<close>, or the anchor \<^verbatim>\<open>$\<close>, which holds at the end of the string and just
  before a line feed that ends the string. A pattern is a sequence of items.
\<close>

datatype atom = Lit char | Dot | NotChr char

fun atom_ok :: "atom \<Rightarrow> char \<Rightarrow> bool" where
  "atom_ok (Lit c) x = (x = c)"
| "atom_ok Dot x = (x \<noteq> CHR 0x0A)"
| "atom_ok (NotChr c) x = (x \<noteq> c)"

datatype item = One atom | Opt atom | Many1 atom | Dollar

text \<open>
  \<open>rx_end p s\<close> matches \<open>p\<close> at the start of \<open>s\<close> the way Python's backtracking matcher
  does, greedy quantifiers trying the longer alternative first, and returns the number
  of characters the first successful attempt consumed.
\<close>

fun rx_end :: "item list \<Rightarrow> string \<Rightarrow> nat option" where
  "rx_end [] s = Some 0"
| "rx_end (Dollar # p) s = (if s = [] \<or> s = [CHR 0x0A] then rx_end p s else None)"
| "rx_end (One a # p) [] = None"
| "rx_end (One a # p) (c # cs) =
     (if atom_ok a c then map_option Suc (rx_end p cs) else None)"
| "rx_end (Opt a # p) [] = rx_end p []"
| "rx_end (Opt a # p) (c # cs) =
     (case (if atom_ok a c then rx_end p cs else None) of
        Some n \<Rightarrow> Some (Suc n)
      | None \<Rightarrow> rx_end p (c # cs))"
| "rx_end (Many1 a # p) [] = None"
| "rx_end (Many1 a # p) (c # cs) =
     (if atom_ok a c
      then (case rx_end (Many1 a # p) cs of
              Some n \<Rightarrow> Some (Suc n)
            | None \<Rightarrow> map_option Suc (rx_end p cs))
      else None)"

text \<open>
  \<^verbatim>\<open>pattern.match(s)\<close> used as a condition: a match object is truthy, \<^verbatim>\<open>None\<close> is
  not. \<^verbatim>\<open>match\<close> starts at the first character, so a leading \<^verbatim>\<open>^\<close> adds nothing.
\<close>

definition re_match :: "item list \<Rightarrow> string \<Rightarrow> bool" where
  "re_match p s = (rx_end p s \<noteq> None)"

text \<open>
  \<^verbatim>\<open>re.search\<close>: the start positions are tried from left to right; the result is the
  text of the first match.
\<close>

fun re_search :: "item list \<Rightarrow> string \<Rightarrow> string option" where
  "re_search p [] = map_option (\<lambda>n. []) (rx_end p [])"
| "re_search p (c # cs) =
     (case rx_end p (c # cs) of
        Some n \<Rightarrow> Some (take n (c # cs))
      | None \<Rightarrow> re_search p cs)"

section \<open>The scraper (\<^verbatim>\<open>2 web scrapper/main.py\<close>)\<close>

text \<open>\<^verbatim>\<open>is_well_formed_link = re.compile(r'^https?://.+/.+$')\<close>\<close>

definition is_well_formed_link :: "item list" where
  "is_well_formed_link =
     [One (Lit CHR ''h''), One (Lit CHR ''t''), One (Lit CHR ''t''), One (Lit CHR ''p''),
      Opt (Lit CHR ''s''),
      One (Lit CHR '':''), One (Lit CHR ''/''), One (Lit CHR ''/''),
      Many1 Dot, One (Lit CHR ''/''), Many1 Dot, Dollar]"

text \<open>\<^verbatim>\<open>is_root_path = re.compile(r'^/.+$')\<close>\<close>

definition is_root_path :: "item list" where
  "is_root_path = [One (Lit CHR ''/''), Many1 Dot, Dollar]"

text \<open>\<^verbatim>\<open>_build_link(host, link)\<close>\<close>

definition build_link :: "string \<Rightarrow> string \<Rightarrow> string" where
  "build_link host link =
     (if re_match is_well_formed_link link then link
      else if re_match is_root_path link then host @ link
      else host @ ''/'' @ link)"

text \<open>
  Modelled from the spec: the class \<^verbatim>\<open>ArticlePage\<close> of \<^verbatim>\<open>news_page_objects\<close> is not among
  the source files. The spec's RawArticle has a url, and a title and a body that are
  each a string or absent; \<^verbatim>\<open>_fetch_article\<close> reads the body only.
\<close>

record article_page =
  article_url :: string
  article_title :: "string option"
  article_body :: "string option"

text \<open>
  What the modules that are not among the source files do is a parameter of the model:
  the site table of \<^verbatim>\<open>common.config\<close>, the links of a home page, the constructor of an
  article page (which fetches, and so may raise), the attribute names \<^verbatim>\<open>dir\<close> lists for
  an article, \<^verbatim>\<open>str(getattr(article, name))\<close>, and the date of the run.
\<close>

record scraper_env =
  config_url :: "string \<Rightarrow> string option"
  home_page_links :: "string \<Rightarrow> string \<Rightarrow> py_exception + string list"
  new_article_page :: "string \<Rightarrow> string \<Rightarrow> py_exception + article_page"
  dir_of :: "article_page \<Rightarrow> string list"
  getattr_str :: "article_page \<Rightarrow> string \<Rightarrow> string"
  today :: string

text \<open>
  \<^verbatim>\<open>_fetch_article(news_site_uid, host, link)\<close>. The \<^verbatim>\<open>except\<close> clause names
  \<^verbatim>\<open>HTTPError\<close> and \<^verbatim>\<open>MaxRetryError\<close>; any other exception leaves the function. An article
  object is truthy; a body that is \<^verbatim>\<open>None\<close> or \<^verbatim>\<open>''\<close> is not.
\<close>

definition caught :: "py_exception \<Rightarrow> bool" where
  "caught e = (e = HTTPError \<or> e = MaxRetryError)"

definition falsy :: "string option \<Rightarrow> bool" where
  "falsy v = (v = None \<or> v = Some [])"

definition fetch_article ::
  "scraper_env \<Rightarrow> string \<Rightarrow> string \<Rightarrow> string \<Rightarrow> py_exception + article_page option" where
  "fetch_article env news_site_uid host link =
     (case new_article_page env news_site_uid (build_link host link) of
        Inl e \<Rightarrow> if caught e then Inr None else Inl e
      | Inr article \<Rightarrow> if falsy (article_body article) then Inr None else Inr (Some article))"

text \<open>
  \<^verbatim>\<open>_save_articles(news_site_uid, articles)\<close>: the header row is read from
  \<^verbatim>\<open>articles[0]\<close>. The written file is the function's result.
\<close>

record csv_file =
  file_name :: string
  header_row :: "string list"
  data_rows :: "string list list"

definition startswith_underscore :: "string \<Rightarrow> bool" where
  "startswith_underscore property = (case property of [] \<Rightarrow> False | c # _ \<Rightarrow> c = CHR ''_'')"

definition save_articles :: "scraper_env \<Rightarrow> string \<Rightarrow> article_page list \<Rightarrow> py_exception + csv_file" where
  "save_articles env news_site_uid articles =
     (case articles of
        [] \<Rightarrow> Inl IndexError
      | first # _ \<Rightarrow>
          (let csv_headers = filter (\<lambda>property. \<not> startswith_underscore property) (dir_of env first)
           in Inr \<lparr>file_name = news_site_uid @ ''_'' @ today env @ ''_articles.csv'',
                   header_row = csv_headers,
                   data_rows = map (\<lambda>article. map (getattr_str env article) csv_headers) articles\<rparr>))"

text \<open>The loop of \<^verbatim>\<open>_news_scraper\<close>: an article is appended when one came back.\<close>

fun fetch_all :: "scraper_env \<Rightarrow> string \<Rightarrow> string \<Rightarrow> string list \<Rightarrow> py_exception + article_page list" where
  "fetch_all env news_site_uid host [] = Inr []"
| "fetch_all env news_site_uid host (link # links) =
     (case fetch_article env news_site_uid host link of
        Inl e \<Rightarrow> Inl e
      | Inr article \<Rightarrow>
          (case fetch_all env news_site_uid host links of
             Inl e \<Rightarrow> Inl e
           | Inr articles \<Rightarrow>
               Inr (case article of None \<Rightarrow> articles | Some a \<Rightarrow> a # articles)))"

text \<open>\<^verbatim>\<open>_news_scraper(news_site_uid)\<close>\<close>

definition news_scraper :: "scraper_env \<Rightarrow> string \<Rightarrow> py_exception + csv_file" where
  "news_scraper env news_site_uid =
     (case config_url env news_site_uid of
        None \<Rightarrow> Inl KeyError
      | Some host \<Rightarrow>
          and_then (home_page_links env news_site_uid host) (\<lambda>article_links.
          and_then (fetch_all env news_site_uid host article_links) (\<lambda>articles.
          save_articles env news_site_uid articles)))"

section \<open>The cleaning recipe (\<^verbatim>\<open>3 Transformacion/newspaper_receipe.py\<close>)\<close>

subsection \<open>Library functions the recipe calls\<close>

text \<open>
  \<^verbatim>\<open>urlparse(url).netloc\<close> (which raises on some inputs), \<^verbatim>\<open>hashlib.md5(b).hexdigest()\<close>,
  \<^verbatim>\<open>nltk.word_tokenize\<close>, \<^verbatim>\<open>str.isalpha\<close>, \<^verbatim>\<open>str.lower\<close> and the Spanish stop words of
  \<^verbatim>\<open>nltk.corpus\<close> are parameters of the model: every theorem below holds whatever
  these functions compute.
\<close>

record library =
  urlparse_netloc :: "string \<Rightarrow> py_exception + string"
  md5_hexdigest :: "string \<Rightarrow> string"
  word_tokenize :: "string \<Rightarrow> string list"
  isalpha :: "string \<Rightarrow> bool"
  lower :: "string \<Rightarrow> string"
  stop_words :: "string set"

subsection \<open>The frame\<close>

text \<open>
  A cell of a text column holds a string or is missing (\<^verbatim>\<open>NaN\<close>). The file the recipe
  reads is the one the scraper wrote, and the loader in \<^verbatim>\<open>4 Visualizacion/main.py\<close> reads
  from the cleaned file exactly the columns below, so a row of the input has the three
  columns \<^verbatim>\<open>url\<close>, \<^verbatim>\<open>title\<close> and \<^verbatim>\<open>body\<close>, each read as text. Every stage that adds a
  column extends the row. The row-wise \<^verbatim>\<open>apply\<close> calls are modelled for a frame that has
  rows.
\<close>

type_synonym cell = "string option"

record csv_line =
  csv_url :: string
  csv_title :: string
  csv_body :: string

record raw_row =
  url :: cell
  title :: cell
  body :: cell

record tagged_row = raw_row +
  newspaper_uid :: string

record hosted_row = tagged_row +
  host :: string

record keyed_row = hosted_row +
  uid :: string

record counted_row = keyed_row +
  n_tokens_title :: "int option"

record clean_row = counted_row +
  n_tokens_body :: "int option"

text \<open>
  \<^verbatim>\<open>_read_data\<close>: \<^verbatim>\<open>pd.read_csv\<close> with its default settings turns a field whose text is
  one of its default missing-value markers, the empty field among them, into \<^verbatim>\<open>NaN\<close>.
\<close>

definition na_values :: "string list" where
  "na_values =
     ['''', ''#N/A'', ''#N/A N/A'', ''#NA'', ''-1.#IND'', ''-1.#QNAN'', ''-NaN'', ''-nan'',
      ''1.#IND'', ''1.#QNAN'', ''<NA>'', ''N/A'', ''NA'', ''NULL'', ''NaN'', ''None'', ''n/a'',
      ''nan'', ''null'']"

definition read_cell :: "string \<Rightarrow> cell" where
  "read_cell field = (if field \<in> set na_values then None else Some field)"

definition read_data :: "csv_line list \<Rightarrow> raw_row list" where
  "read_data file_rows =
     map (\<lambda>line. \<lparr>url = read_cell (csv_url line), title = read_cell (csv_title line),
                   body = read_cell (csv_body line)\<rparr>) file_rows"

text \<open>\<^verbatim>\<open>filename.split('_')[0]\<close>; \<^verbatim>\<open>split\<close> never returns an empty list.\<close>

definition extract_newspaper_uid :: "string \<Rightarrow> string" where
  "extract_newspaper_uid filename = (case split_on CHR ''_'' filename of [] \<Rightarrow> [] | w # _ \<Rightarrow> w)"

definition add_newspaper_uid_column :: "raw_row list \<Rightarrow> string \<Rightarrow> tagged_row list" where
  "add_newspaper_uid_column df uid_of_newspaper =
     map (\<lambda>row. \<lparr>url = url row, title = title row, body = body row,
                  newspaper_uid = uid_of_newspaper\<rparr>) df"

text \<open>
  \<^verbatim>\<open>_extract_host\<close>: \<^verbatim>\<open>urlparse\<close> of a missing url (a float) raises \<^verbatim>\<open>AttributeError\<close>.
\<close>

definition extract_host :: "library \<Rightarrow> tagged_row list \<Rightarrow> py_exception + hosted_row list" where
  "extract_host lib df =
     traverse (\<lambda>row.
       and_then (case url row of None \<Rightarrow> Inl AttributeError | Some u \<Rightarrow> urlparse_netloc lib u)
         (\<lambda>netloc. Inr \<lparr>url = url row, title = title row, body = body row,
                         newspaper_uid = newspaper_uid row, host = netloc\<rparr>)) df"

text \<open>
  \<^verbatim>\<open>_add_missing_titles\<close>. The pattern of \<^verbatim>\<open>str.extract\<close> is
  \<^verbatim>\<open>(?P<missing_titles>[^/]+)$\<close>; its group is the whole match, the anchor being empty.
  For a row the pattern does not match, \<^verbatim>\<open>extract\<close> yields \<^verbatim>\<open>NaN\<close>, and \<^verbatim>\<open>applymap\<close>
  calls \<^verbatim>\<open>title.split('-')\<close> on it, which raises \<^verbatim>\<open>AttributeError\<close>.
\<close>

definition missing_titles_pattern :: "item list" where
  "missing_titles_pattern = [Many1 (NotChr CHR ''/''), Dollar]"

definition str_extract :: "item list \<Rightarrow> cell \<Rightarrow> cell" where
  "str_extract p c = (case c of None \<Rightarrow> None | Some s \<Rightarrow> re_search p s)"

definition missing_title :: "cell \<Rightarrow> py_exception + cell" where
  "missing_title u =
     and_then (case str_extract missing_titles_pattern u of
                 None \<Rightarrow> Inl AttributeError
               | Some t \<Rightarrow> Inr (split_on CHR ''-'' t))
       (\<lambda>title_word_list. Inr (Some (join '' '' title_word_list)))"

definition add_missing_titles :: "hosted_row list \<Rightarrow> py_exception + hosted_row list" where
  "add_missing_titles df =
     traverse (\<lambda>row.
       if title row = None
       then and_then (missing_title (url row)) (\<lambda>t. Inr (row\<lparr>title := t\<rparr>))
       else Inr row) df"

text \<open>
  \<^verbatim>\<open>_generate_uids_for_rows\<close>. The file was decoded as ISO-8859-1, so every character
  of a url is one byte and \<^verbatim>\<open>encode\<close> gives those bytes back; the new column becomes the
  index of the frame.
\<close>

definition generate_uids_for_rows :: "library \<Rightarrow> hosted_row list \<Rightarrow> py_exception + keyed_row list" where
  "generate_uids_for_rows lib df =
     traverse (\<lambda>row.
       case url row of
         None \<Rightarrow> Inl AttributeError
       | Some u \<Rightarrow> Inr \<lparr>url = url row, title = title row, body = body row,
                        newspaper_uid = newspaper_uid row, host = host row,
                        uid = md5_hexdigest lib u\<rparr>) df"

text \<open>
  \<^verbatim>\<open>_remove_new_lines_from_body\<close>: \<^verbatim>\<open>list(body)\<close> of a missing body (a float) raises
  \<^verbatim>\<open>TypeError\<close>. A letter is a string of one character, so \<^verbatim>\<open>letter.replace(old, new)\<close>
  is the letter or \<open>new\<close>.
\<close>

definition replace_letter :: "char \<Rightarrow> char \<Rightarrow> char \<Rightarrow> char" where
  "replace_letter old new letter = (if letter = old then new else letter)"

definition stripped_body :: "string \<Rightarrow> string" where
  "stripped_body b =
     (let letters = b;
          letters = map (replace_letter (CHR 0x0A) CHR '' '') letters;
          letters = map (replace_letter (CHR 0x0D) CHR '' '') letters
      in concat (map (\<lambda>letter. [letter]) letters))"

definition remove_new_lines_from_body :: "keyed_row list \<Rightarrow> py_exception + keyed_row list" where
  "remove_new_lines_from_body df =
     traverse (\<lambda>row.
       case body row of
         None \<Rightarrow> Inl TypeError
       | Some b \<Rightarrow> Inr (row\<lparr>body := Some (stripped_body b)\<rparr>)) df"

text \<open>
  \<^verbatim>\<open>_token_size_column(df, column_name)\<close>: \<^verbatim>\<open>dropna\<close> keeps the rows with no missing
  cell, and the counts come back as a series labelled with the index of the kept rows.
  \<open>notna\<close> says which rows of the frame at hand have no missing cell.
\<close>

definition n_tokens :: "library \<Rightarrow> string \<Rightarrow> int" where
  "n_tokens lib text =
     (let tokens = word_tokenize lib text;
          tokens = filter (isalpha lib) tokens;
          word_list = map (lower lib) tokens;
          valid_word_list = filter (\<lambda>word. word \<notin> stop_words lib) word_list
      in int (length valid_word_list))"

definition token_size_column ::
  "library \<Rightarrow> ('a keyed_row_scheme \<Rightarrow> bool) \<Rightarrow> ('a keyed_row_scheme \<Rightarrow> cell) \<Rightarrow>
   'a keyed_row_scheme list \<Rightarrow> py_exception + (string \<times> int) list" where
  "token_size_column lib notna column df =
     traverse (\<lambda>row.
       case column row of
         None \<Rightarrow> Inl TypeError
       | Some text \<Rightarrow> Inr (uid row, n_tokens lib text)) (filter notna df)"

definition notna_keyed :: "keyed_row \<Rightarrow> bool" where
  "notna_keyed row = (url row \<noteq> None \<and> title row \<noteq> None \<and> body row \<noteq> None)"

definition notna_counted :: "counted_row \<Rightarrow> bool" where
  "notna_counted row =
     (url row \<noteq> None \<and> title row \<noteq> None \<and> body row \<noteq> None \<and> n_tokens_title row \<noteq> None)"

definition notna_clean :: "clean_row \<Rightarrow> bool" where
  "notna_clean row =
     (url row \<noteq> None \<and> title row \<noteq> None \<and> body row \<noteq> None \<and>
      n_tokens_title row \<noteq> None \<and> n_tokens_body row \<noteq> None)"

text \<open>
  \<^verbatim>\<open>df[name] = series\<close>: when the labels of the series are the index of the frame, the
  values are taken as they stand. Otherwise the series is reindexed by the index of the
  frame, which raises \<^verbatim>\<open>ValueError\<close> when a label of the series repeats, and leaves
  \<^verbatim>\<open>NaN\<close> in the rows whose label the series does not have.
\<close>

definition align :: "(string \<times> 'v) list \<Rightarrow> string list \<Rightarrow> py_exception + 'v option list" where
  "align series index =
     (if map fst series = index then Inr (map (\<lambda>labelled. Some (snd labelled)) series)
      else if \<not> distinct (map fst series) then Inl ValueError
      else Inr (map (map_of series) index))"

definition set_n_tokens_title :: "keyed_row list \<Rightarrow> (string \<times> int) list \<Rightarrow> py_exception + counted_row list" where
  "set_n_tokens_title df series =
     and_then (align series (map uid df)) (\<lambda>values.
       Inr (map2 (\<lambda>row v. \<lparr>url = url row, title = title row, body = body row,
                            newspaper_uid = newspaper_uid row, host = host row, uid = uid row,
                            n_tokens_title = v\<rparr>) df values))"

definition set_n_tokens_body :: "counted_row list \<Rightarrow> (string \<times> int) list \<Rightarrow> py_exception + clean_row list" where
  "set_n_tokens_body df series =
     and_then (align series (map uid df)) (\<lambda>values.
       Inr (map2 (\<lambda>row v. \<lparr>url = url row, title = title row, body = body row,
                            newspaper_uid = newspaper_uid row, host = host row, uid = uid row,
                            n_tokens_title = n_tokens_title row, n_tokens_body = v\<rparr>) df values))"

text \<open>
  \<^verbatim>\<open>_remove_duplicate_entries(df, column_name)\<close>: \<^verbatim>\<open>drop_duplicates(keep='first')\<close> keeps
  a row when no earlier row has its value in the column (two missing values count as
  the same value).
\<close>

fun drop_duplicates :: "('r \<Rightarrow> 'k) \<Rightarrow> 'k list \<Rightarrow> 'r list \<Rightarrow> 'r list" where
  "drop_duplicates column seen [] = []"
| "drop_duplicates column seen (row # rows) =
     (if column row \<in> set seen then drop_duplicates column seen rows
      else row # drop_duplicates column (column row # seen) rows)"

definition remove_duplicate_entries :: "'r list \<Rightarrow> ('r \<Rightarrow> 'k) \<Rightarrow> 'r list" where
  "remove_duplicate_entries df column = drop_duplicates column [] df"

text \<open>\<^verbatim>\<open>_drop_rows_missing_data\<close>\<close>

definition drop_rows_missing_data :: "clean_row list \<Rightarrow> clean_row list" where
  "drop_rows_missing_data df = filter notna_clean df"

text \<open>
  \<^verbatim>\<open>main(filename)\<close>, given the lines of the file. \<^verbatim>\<open>_save_data\<close> writes the frame that
  \<open>main\<close> returns.
\<close>

definition main :: "library \<Rightarrow> string \<Rightarrow> csv_line list \<Rightarrow> py_exception + clean_row list" where
  "main lib filename file_rows =
     (let df = read_data file_rows;
          df = add_newspaper_uid_column df (extract_newspaper_uid filename)
      in and_then (extract_host lib df) (\<lambda>df.
         and_then (add_missing_titles df) (\<lambda>df.
         and_then (generate_uids_for_rows lib df) (\<lambda>df.
         and_then (remove_new_lines_from_body df) (\<lambda>df.
         and_then (token_size_column lib notna_keyed title df) (\<lambda>counts.
         and_then (set_n_tokens_title df counts) (\<lambda>df.
         and_then (token_size_column lib notna_counted body df) (\<lambda>counts.
         and_then (set_n_tokens_body df counts) (\<lambda>df.
         Inr (drop_rows_missing_data (remove_duplicate_entries df title)))))))))))"

subsection \<open>What the stages make of one line\<close>

text \<open>
  The title a line ends up with: its own, or the one stage 3 derives from its url. A row
  of the frame is \<open>keyed\<close> to a line of the file when its cells are what stages 1 to 5
  make of that line, and \<open>cleaned\<close> when it also carries the two token counts. The
  lemmas on \<open>main\<close> below are stated with these two predicates.
\<close>

definition backfilled :: "string \<Rightarrow> string \<Rightarrow> cell" where
  "backfilled title_field u =
     (if read_cell title_field = None
      then map_option (\<lambda>seg. join '' '' (split_on CHR ''-'' seg)) (re_search missing_titles_pattern u)
      else read_cell title_field)"

definition keyed :: "library \<Rightarrow> string \<Rightarrow> csv_line \<Rightarrow> 'a keyed_row_scheme \<Rightarrow> bool" where
  "keyed lib filename line row =
     (\<exists>u b t. read_cell (csv_url line) = Some u \<and> read_cell (csv_body line) = Some b \<and>
        backfilled (csv_title line) u = Some t \<and>
        url row = Some u \<and> title row = Some t \<and> body row = Some (stripped_body b) \<and>
        newspaper_uid row = extract_newspaper_uid filename \<and>
        urlparse_netloc lib u = Inr (host row) \<and> uid row = md5_hexdigest lib u)"

definition cleaned :: "library \<Rightarrow> string \<Rightarrow> csv_line \<Rightarrow> clean_row \<Rightarrow> bool" where
  "cleaned lib filename line row =
     (keyed lib filename line row \<and>
      n_tokens_title row = Some (n_tokens lib (the (title row))) \<and>
      n_tokens_body row = Some (n_tokens lib (the (body row))))"


section \<open>Examples to run the two programs on\<close>

subsection \<open>A library for the recipe\<close>

text \<open>
  The closed examples below need the library functions at concrete arguments.
  \<open>urlsplit_netloc\<close> follows \<^verbatim>\<open>urllib.parse.urlsplit\<close>: a leading scheme (letters, digits,
  \<^verbatim>\<open>+\<close>, \<^verbatim>\<open>-\<close>, \<^verbatim>\<open>.\<close> up to the first colon) is taken off; if the rest starts with \<^verbatim>\<open>//\<close>,
  the network location runs up to the next \<^verbatim>\<open>/\<close>, \<^verbatim>\<open>?\<close> or \<^verbatim>\<open>#\<close>, and unbalanced square
  brackets in it raise \<^verbatim>\<open>ValueError\<close>; otherwise the network location is empty. The
  other entries stand in for \<^verbatim>\<open>hashlib\<close> and \<^verbatim>\<open>nltk\<close>: a digest that marks the bytes
  it was given, words split at spaces, ASCII letters, and five stop words.
\<close>

definition scheme_chars :: string where
  "scheme_chars = ''abcdefghijklmnopqrstuvwxyzABCDEFGHIJKLMNOPQRSTUVWXYZ0123456789+-.''"

definition strip_scheme :: "string \<Rightarrow> string" where
  "strip_scheme u =
     (let scheme = takeWhile (\<lambda>c. c \<noteq> CHR '':'') u
      in if scheme \<noteq> [] \<and> length scheme < length u \<and> list_all (\<lambda>c. c \<in> set scheme_chars) scheme
         then drop (Suc (length scheme)) u
         else u)"

definition urlsplit_netloc :: "string \<Rightarrow> py_exception + string" where
  "urlsplit_netloc u =
     (let rest = strip_scheme u
      in if take 2 rest = ''//''
         then (let netloc = takeWhile (\<lambda>c. c \<notin> set ''/?#'') (drop 2 rest)
               in if (CHR ''['' \<in> set netloc) \<noteq> (CHR '']'' \<in> set netloc)
                  then Inl ValueError
                  else Inr netloc)
         else Inr [])"

definition ascii_letters :: string where
  "ascii_letters = ''abcdefghijklmnopqrstuvwxyzABCDEFGHIJKLMNOPQRSTUVWXYZ''"

definition ascii_lower :: "char \<Rightarrow> char" where
  "ascii_lower c =
     (case map_of (zip ''ABCDEFGHIJKLMNOPQRSTUVWXYZ'' ''abcdefghijklmnopqrstuvwxyz'') c of
        None \<Rightarrow> c
      | Some l \<Rightarrow> l)"

definition sample_library :: library where
  "sample_library =
     \<lparr>urlparse_netloc = urlsplit_netloc,
      md5_hexdigest = (\<lambda>bytes. ''md5:'' @ bytes),
      word_tokenize = (\<lambda>text. filter (\<lambda>w. w \<noteq> []) (split_on CHR '' '' text)),
      isalpha = (\<lambda>w. w \<noteq> [] \<and> list_all (\<lambda>c. c \<in> set ascii_letters) w),
      lower = map ascii_lower,
      stop_words = set [''de'', ''la'', ''el'', ''en'', ''y'']\<rparr>"

subsection \<open>A site for the scraper\<close>

text \<open>
  One configured site whose home page lists two links; \<open>fetch\<close> says what constructing
  an article page for a url does.
\<close>

definition sample_article :: "string \<Rightarrow> article_page" where
  "sample_article u = \<lparr>article_url = u, article_title = Some ''T'', article_body = Some ''Texto''\<rparr>"

definition sample_env :: "(string \<Rightarrow> py_exception + article_page) \<Rightarrow> scraper_env" where
  "sample_env fetch =
     \<lparr>config_url = [''eluniversal'' \<mapsto> ''https://x.com''],
      home_page_links = (\<lambda>news_site_uid h. Inr [''/a/b'', ''https://y.com/c'']),
      new_article_page = (\<lambda>news_site_uid u. fetch u),
      dir_of = (\<lambda>article. [''__class__'', ''_html'', ''body'', ''title'', ''url'']),
      getattr_str = (\<lambda>article name.
         if name = ''body'' then (case article_body article of None \<Rightarrow> ''None'' | Some b \<Rightarrow> b)
         else if name = ''title'' then (case article_title article of None \<Rightarrow> ''None'' | Some t \<Rightarrow> t)
         else article_url article),
      today = ''2020_01_01''\<rparr>"

subsection \<open>A file of three lines\<close>

text \<open>
  A line without a title, a line with a title, and a third line that repeats that
  title; and the frame the recipe makes of them with the sample library.
\<close>

definition scenario :: "csv_line list" where
  "scenario =
     [\<lparr>csv_url = ''https://n.com/x-y-z'', csv_title = '''', csv_body = ''Hola\<newline>Mundo''\<rparr>,
      \<lparr>csv_url = ''https://n.com/other'', csv_title = ''T1'', csv_body = ''Texto valido''\<rparr>,
      \<lparr>csv_url = ''https://n.com/third'', csv_title = ''T1'', csv_body = ''Otro texto''\<rparr>]"

definition scenario_cleaned :: "clean_row list" where
  "scenario_cleaned =
     [\<lparr>url = Some ''https://n.com/x-y-z'', title = Some ''x y z'', body = Some ''Hola Mundo'',
       newspaper_uid = ''eluniversal'', host = ''n.com'', uid = ''md5:https://n.com/x-y-z'',
       n_tokens_title = Some 2, n_tokens_body = Some 2\<rparr>,
      \<lparr>url = Some ''https://n.com/other'', title = Some ''T1'', body = Some ''Texto valido'',
       newspaper_uid = ''eluniversal'', host = ''n.com'', uid = ''md5:https://n.com/other'',
       n_tokens_title = Some 0, n_tokens_body = Some 2\<rparr>]"

section \<open>Facts about the regular expressions\<close>

lemma re_match_Nil [simp]: "re_match [] s"
  by (simp add: re_match_def)

lemma re_match_Dollar [simp]:
  "re_match (Dollar # p) s = ((s = [] \<or> s = [CHR 0x0A]) \<and> re_match p s)"
  by (simp add: re_match_def)

lemma re_match_One [simp]:
  "re_match (One a # p) s = (\<exists>c cs. s = c # cs \<and> atom_ok a c \<and> re_match p cs)"
  by (cases s) (simp_all add: re_match_def)

lemma re_match_Opt [simp]:
  "re_match (Opt a # p) s =
     ((\<exists>c cs. s = c # cs \<and> atom_ok a c \<and> re_match p cs) \<or> re_match p s)"
  by (cases s) (auto simp add: re_match_def split: option.splits)

lemma re_match_Many1_Cons:
  "re_match (Many1 a # p) (c # cs) =
     (atom_ok a c \<and> (re_match (Many1 a # p) cs \<or> re_match p cs))"
  by (auto simp add: re_match_def split: option.splits)

text \<open>\<^verbatim>\<open>a+\<close> followed by \<open>p\<close> matches a non-empty run of \<open>a\<close> followed by a match of \<open>p\<close>.\<close>

lemma re_match_Many1:
  "re_match (Many1 a # p) s =
     (\<exists>u v. s = u @ v \<and> u \<noteq> [] \<and> list_all (atom_ok a) u \<and> re_match p v)"
proof (induction s)
  case Nil
  then show ?case by (simp add: re_match_def)
next
  case (Cons c cs)
  show ?case
  proof
    assume "re_match (Many1 a # p) (c # cs)"
    then have ok: "atom_ok a c" and alt: "re_match (Many1 a # p) cs \<or> re_match p cs"
      by (simp_all add: re_match_Many1_Cons)
    from alt show "\<exists>u v. c # cs = u @ v \<and> u \<noteq> [] \<and> list_all (atom_ok a) u \<and> re_match p v"
    proof
      assume "re_match (Many1 a # p) cs"
      then obtain u v where "cs = u @ v" "list_all (atom_ok a) u" "re_match p v"
        using Cons.IH by blast
      with ok have "c # cs = (c # u) @ v \<and> c # u \<noteq> [] \<and> list_all (atom_ok a) (c # u) \<and> re_match p v"
        by simp
      then show ?thesis by blast
    next
      assume "re_match p cs"
      with ok have "c # cs = [c] @ cs \<and> [c] \<noteq> [] \<and> list_all (atom_ok a) [c] \<and> re_match p cs"
        by simp
      then show ?thesis by blast
    qed
  next
    assume "\<exists>u v. c # cs = u @ v \<and> u \<noteq> [] \<and> list_all (atom_ok a) u \<and> re_match p v"
    then obtain u v where uv: "c # cs = u @ v" "u \<noteq> []" "list_all (atom_ok a) u" "re_match p v"
      by blast
    then obtain u' where u: "u = c # u'" and cs: "cs = u' @ v"
      by (cases u) auto
    show "re_match (Many1 a # p) (c # cs)"
    proof (cases "u' = []")
      case True
      with uv u cs show ?thesis by (simp add: re_match_Many1_Cons)
    next
      case False
      with uv u cs have "re_match (Many1 a # p) cs"
        using Cons.IH by auto
      with uv u show ?thesis by (simp add: re_match_Many1_Cons)
    qed
  qed
qed

lemma list_all_Dot: "list_all (atom_ok Dot) u = (CHR 0x0A \<notin> set u)"
  by (induction u) auto

lemma dot_plus_dollar:
  "re_match [Many1 Dot, Dollar] s =
     (\<exists>p t. s = p @ t \<and> p \<noteq> [] \<and> CHR 0x0A \<notin> set p \<and> (t = [] \<or> t = [CHR 0x0A]))"
  by (auto simp add: re_match_Many1 list_all_Dot)

lemma is_root_path_shape:
  "re_match is_root_path link =
     (\<exists>b t. link = ''/'' @ b @ t \<and> b \<noteq> [] \<and> CHR 0x0A \<notin> set b \<and> (t = [] \<or> t = [CHR 0x0A]))"
  by (auto simp add: is_root_path_def dot_plus_dollar)

lemma link_tail_shape:
  "re_match [Many1 Dot, One (Lit CHR ''/''), Many1 Dot, Dollar] r =
     (\<exists>a p t. r = a @ ''/'' @ p @ t \<and> a \<noteq> [] \<and> CHR 0x0A \<notin> set a \<and>
        p \<noteq> [] \<and> CHR 0x0A \<notin> set p \<and> (t = [] \<or> t = [CHR 0x0A]))"
proof
  assume "re_match [Many1 Dot, One (Lit CHR ''/''), Many1 Dot, Dollar] r"
  then obtain u v where uv: "r = u @ v" "u \<noteq> []" "list_all (atom_ok Dot) u"
      "re_match [One (Lit CHR ''/''), Many1 Dot, Dollar] v"
    by (subst (asm) re_match_Many1) blast
  then obtain cs where cs: "v = CHR ''/'' # cs" "re_match [Many1 Dot, Dollar] cs"
    by auto
  then obtain p t where pt: "cs = p @ t" "p \<noteq> []" "CHR 0x0A \<notin> set p" "t = [] \<or> t = [CHR 0x0A]"
    using dot_plus_dollar by blast
  from uv cs pt have "r = u @ ''/'' @ p @ t \<and> u \<noteq> [] \<and> CHR 0x0A \<notin> set u \<and>
        p \<noteq> [] \<and> CHR 0x0A \<notin> set p \<and> (t = [] \<or> t = [CHR 0x0A])"
    by (simp add: list_all_Dot)
  then show "\<exists>a p t. r = a @ ''/'' @ p @ t \<and> a \<noteq> [] \<and> CHR 0x0A \<notin> set a \<and>
        p \<noteq> [] \<and> CHR 0x0A \<notin> set p \<and> (t = [] \<or> t = [CHR 0x0A])"
    by blast
next
  assume "\<exists>a p t. r = a @ ''/'' @ p @ t \<and> a \<noteq> [] \<and> CHR 0x0A \<notin> set a \<and>
        p \<noteq> [] \<and> CHR 0x0A \<notin> set p \<and> (t = [] \<or> t = [CHR 0x0A])"
  then obtain a p t where apt: "r = a @ ''/'' @ p @ t" "a \<noteq> []" "CHR 0x0A \<notin> set a"
      "p \<noteq> []" "CHR 0x0A \<notin> set p" "t = [] \<or> t = [CHR 0x0A]"
    by blast
  then have "re_match [Many1 Dot, Dollar] (p @ t)"
    using dot_plus_dollar by blast
  then have "re_match [One (Lit CHR ''/''), Many1 Dot, Dollar] (''/'' @ p @ t)"
    by simp
  with apt have "r = a @ (''/'' @ p @ t) \<and> a \<noteq> [] \<and> list_all (atom_ok Dot) a \<and>
      re_match [One (Lit CHR ''/''), Many1 Dot, Dollar] (''/'' @ p @ t)"
    by (simp add: list_all_Dot)
  then show "re_match [Many1 Dot, One (Lit CHR ''/''), Many1 Dot, Dollar] r"
    by (subst re_match_Many1) blast
qed

lemma is_well_formed_link_prefix:
  "re_match is_well_formed_link link =
     ((\<exists>r. link = ''http://'' @ r \<and> re_match [Many1 Dot, One (Lit CHR ''/''), Many1 Dot, Dollar] r) \<or>
      (\<exists>r. link = ''https://'' @ r \<and> re_match [Many1 Dot, One (Lit CHR ''/''), Many1 Dot, Dollar] r))"
  unfolding is_well_formed_link_def by auto

lemma is_well_formed_link_shape:
  "re_match is_well_formed_link link =
     (\<exists>s a p t. link = s @ a @ ''/'' @ p @ t \<and> (s = ''http://'' \<or> s = ''https://'') \<and>
        a \<noteq> [] \<and> CHR 0x0A \<notin> set a \<and> p \<noteq> [] \<and> CHR 0x0A \<notin> set p \<and>
        (t = [] \<or> t = [CHR 0x0A]))"
  unfolding is_well_formed_link_prefix link_tail_shape by blast

section \<open>The link resolver\<close>

text \<open>
  Claim C6, as amended. \<open>build_link\<close> is a total function of two strings. A link of the
  form \<^verbatim>\<open>http://\<close> or \<^verbatim>\<open>https://\<close>, one or more characters, a slash, one or more
  characters is returned unchanged; otherwise a link that is a slash followed by one
  or more characters is appended to the host; any other link is appended to the host
  and a slash. In both forms "one or more characters" excludes the line feed, the
  character the pattern's \<^verbatim>\<open>.\<close> does not match, except for a single line feed that ends
  the link.
\<close>

theorem build_link_cases:
  "build_link base_host raw_link =
     (if \<exists>s a p t. raw_link = s @ a @ ''/'' @ p @ t \<and> (s = ''http://'' \<or> s = ''https://'') \<and>
           a \<noteq> [] \<and> CHR 0x0A \<notin> set a \<and> p \<noteq> [] \<and> CHR 0x0A \<notin> set p \<and>
           (t = [] \<or> t = [CHR 0x0A])
      then raw_link
      else if \<exists>b t. raw_link = ''/'' @ b @ t \<and> b \<noteq> [] \<and> CHR 0x0A \<notin> set b \<and>
           (t = [] \<or> t = [CHR 0x0A])
      then base_host @ raw_link
      else base_host @ ''/'' @ raw_link)"
  unfolding build_link_def is_well_formed_link_shape is_root_path_shape ..

theorem build_link_cases_witness:
  "(\<exists>b t. ''/a/b'' = ''/'' @ b @ t \<and> b \<noteq> [] \<and> CHR 0x0A \<notin> set b \<and> (t = [] \<or> t = [CHR 0x0A])) \<and>
   build_link ''https://x.com'' ''/a/b'' = ''https://x.com/a/b''"
proof -
  have not_absolute:
    "\<not> (\<exists>s a p t. ''/a/b'' = s @ a @ ''/'' @ p @ t \<and> (s = ''http://'' \<or> s = ''https://'') \<and>
           a \<noteq> [] \<and> CHR 0x0A \<notin> set a \<and> p \<noteq> [] \<and> CHR 0x0A \<notin> set p \<and>
           (t = [] \<or> t = [CHR 0x0A]))"
    by auto
  have root: "\<exists>b t. ''/a/b'' = ''/'' @ b @ t \<and> b \<noteq> [] \<and> CHR 0x0A \<notin> set b \<and> (t = [] \<or> t = [CHR 0x0A])"
    by (intro exI [of _ "''a/b''"] exI [of _ "[]"]) simp
  have "build_link ''https://x.com'' ''/a/b'' = ''https://x.com'' @ ''/a/b''"
    by (subst build_link_cases) (simp only: not_absolute root if_True if_False)
  with root show ?thesis
    by simp
qed

text \<open>
  The claim as it was stated fails for a link that starts with a slash and holds a
  line feed further on: it is not appended to the host as it stands, the third branch
  adds a second slash.
\<close>

theorem build_link_newline_counterexample:
  "''/a\<newline>b'' = CHR ''/'' # ''a\<newline>b'' \<and> \<not> re_match is_well_formed_link ''/a\<newline>b'' \<and>
   build_link ''https://x.com'' ''/a\<newline>b'' \<noteq> ''https://x.com'' @ ''/a\<newline>b'' \<and>
   build_link ''https://x.com'' ''/a\<newline>b'' = ''https://x.com//a\<newline>b''"
  by code_simp



section \<open>Fetching and collecting\<close>

text \<open>
  Claim C3, as amended. When constructing the article page raises \<^verbatim>\<open>HTTPError\<close> or
  \<^verbatim>\<open>MaxRetryError\<close>, \<open>fetch_article\<close> returns no article and raises nothing; any other
  exception leaves \<open>fetch_article\<close> as it came. When the page is constructed, an absent or
  empty body gives no article, and any other body gives exactly that article.
\<close>

theorem fetch_article_outcomes:
  "(new_article_page env news_site_uid (build_link base_host raw_link) = Inl e \<longrightarrow>
      fetch_article env news_site_uid base_host raw_link =
        (if e = HTTPError \<or> e = MaxRetryError then Inr None else Inl e)) \<and>
   (new_article_page env news_site_uid (build_link base_host raw_link) = Inr article \<longrightarrow>
      fetch_article env news_site_uid base_host raw_link =
        (if article_body article = None \<or> article_body article = Some [] then Inr None
         else Inr (Some article)))"
  by (simp add: fetch_article_def caught_def falsy_def)

theorem fetch_article_outcomes_witness:
  "fetch_article (sample_env (\<lambda>u. Inl HTTPError)) ''eluniversal'' ''https://x.com'' ''/a/b'' = Inr None \<and>
   fetch_article (sample_env (\<lambda>u. Inl MaxRetryError)) ''eluniversal'' ''https://x.com'' ''/a/b'' = Inr None \<and>
   fetch_article (sample_env (\<lambda>u. Inr ((sample_article u)\<lparr>article_body := Some []\<rparr>)))
     ''eluniversal'' ''https://x.com'' ''/a/b'' = Inr None \<and>
   fetch_article (sample_env (\<lambda>u. Inr (sample_article u))) ''eluniversal'' ''https://x.com'' ''/a/b''
     = Inr (Some (sample_article ''https://x.com/a/b''))"
proof -
  have link: "build_link ''https://x.com'' ''/a/b'' = ''https://x.com/a/b''"
    by code_simp
  show ?thesis
    using fetch_article_outcomes [of "sample_env (\<lambda>u. Inl HTTPError)" "''eluniversal''"
        "''https://x.com''" "''/a/b''" HTTPError]
      fetch_article_outcomes [of "sample_env (\<lambda>u. Inl MaxRetryError)" "''eluniversal''"
        "''https://x.com''" "''/a/b''" MaxRetryError]
      fetch_article_outcomes [of "sample_env (\<lambda>u. Inr ((sample_article u)\<lparr>article_body := Some []\<rparr>))"
        "''eluniversal''" "''https://x.com''" "''/a/b''" _
        "(sample_article ''https://x.com/a/b'')\<lparr>article_body := Some []\<rparr>"]
      fetch_article_outcomes [of "sample_env (\<lambda>u. Inr (sample_article u))" "''eluniversal''"
        "''https://x.com''" "''/a/b''" _ "sample_article ''https://x.com/a/b''"]
    by (simp add: link sample_env_def sample_article_def)
qed

text \<open>
  The claim as it was stated fails for a timeout or a connection failure that reaches
  \<open>fetch_article\<close> as an exception of another class: it is not caught.
\<close>

theorem fetch_article_timeout_counterexample:
  "fetch_article (sample_env (\<lambda>u. Inl Timeout)) ''eluniversal'' ''https://x.com'' ''/a/b'' = Inl Timeout \<and>
   fetch_article (sample_env (\<lambda>u. Inl ConnectionError)) ''eluniversal'' ''https://x.com'' ''/a/b''
     = Inl ConnectionError"
  by (simp add: fetch_article_def sample_env_def caught_def)

lemma save_articles_Nil: "save_articles env news_site_uid [] = Inl IndexError"
  by (simp add: save_articles_def)

text \<open>A run in which no link yields an article ends in \<^verbatim>\<open>IndexError\<close>, whatever the site.\<close>

lemma news_scraper_nothing_fetched:
  assumes "config_url env news_site_uid = Some h"
    and "home_page_links env news_site_uid h = Inr links"
    and "list_all (\<lambda>link. fetch_article env news_site_uid h link = Inr None) links"
  shows "news_scraper env news_site_uid = Inl IndexError"
proof -
  from assms(3) have "fetch_all env news_site_uid h links = Inr []"
    by (induction links) simp_all
  with assms(1,2) show ?thesis
    by (simp add: news_scraper_def and_then_def save_articles_Nil)
qed

text \<open>
  Claim C4 says that a run which fetches no article completes and writes an empty,
  well-formed file. On the sample site the run raises \<^verbatim>\<open>IndexError\<close> instead, at
  \<^verbatim>\<open>articles[0]\<close> in \<open>save_articles\<close>: when every fetch fails with \<^verbatim>\<open>HTTPError\<close>, when
  every page has an empty body, and when the home page lists no link.
\<close>

theorem news_scraper_no_articles:
  "news_scraper (sample_env (\<lambda>u. Inl HTTPError)) ''eluniversal'' = Inl IndexError \<and>
   news_scraper (sample_env (\<lambda>u. Inr ((sample_article u)\<lparr>article_body := Some []\<rparr>))) ''eluniversal''
     = Inl IndexError \<and>
   news_scraper ((sample_env (\<lambda>u. Inr (sample_article u)))\<lparr>home_page_links := (\<lambda>news_site_uid h. Inr [])\<rparr>)
     ''eluniversal'' = Inl IndexError"
  by (simp add: news_scraper_def sample_env_def and_then_def fetch_article_def caught_def falsy_def
      save_articles_def sample_article_def)

section \<open>Facts about sequencing, splitting and joining\<close>

lemma and_then_Inr [simp]: "and_then (Inr x) f = f x"
  by (simp add: and_then_def)

lemma and_then_Inl [simp]: "and_then (Inl e) f = Inl e"
  by (simp add: and_then_def)

lemma and_then_eq_Inr: "(and_then r f = Inr y) = (\<exists>x. r = Inr x \<and> f x = Inr y)"
  by (cases r) simp_all

text \<open>A traversal returns exactly when the function returns on every element.\<close>

lemma traverse_eq_Inr: "(traverse f xs = Inr ys) = list_all2 (\<lambda>x y. f x = Inr y) xs ys"
proof (induction xs arbitrary: ys)
  case Nil
  then show ?case by auto
next
  case (Cons x xs)
  have "list_all2 (\<lambda>x y. f x = Inr y) xs zs = (traverse f xs = Inr zs)" for zs
    using Cons.IH by simp
  then show ?case
    by (cases ys) (auto split: sum.splits)
qed

lemma traverse_total:
  "list_all (\<lambda>x. f x = Inr (g x)) xs \<Longrightarrow> traverse f xs = Inr (map g xs)"
  by (induction xs) simp_all



lemma list_all2_set1: "list_all2 P xs ys \<Longrightarrow> x \<in> set xs \<Longrightarrow> \<exists>y\<in>set ys. P x y"
  by (induction rule: list_all2_induct) auto

lemma list_all2_set2: "list_all2 P xs ys \<Longrightarrow> y \<in> set ys \<Longrightarrow> \<exists>x\<in>set xs. P x y"
  by (induction rule: list_all2_induct) auto

lemma map2_same: "map2 f xs (map g xs) = map (\<lambda>x. f x (g x)) xs"
  by (induction xs) simp_all

lemma split_on_not_Nil [simp]: "split_on sep s \<noteq> []"
  by (induction s) (auto split: list.splits)

lemma join_Cons_Cons: "join sep ((c # w) # ws) = c # join sep (w # ws)"
  by (cases ws) simp_all

lemma join_Nil_Cons: "ws \<noteq> [] \<Longrightarrow> join sep ([] # ws) = sep @ join sep ws"
  by (cases ws) simp_all

text \<open>Splitting at a character and joining with another replaces the one by the other.\<close>

lemma join_split_on: "join [s] (split_on sep t) = map (\<lambda>c. if c = sep then s else c) t"
proof (induction t)
  case Nil
  then show ?case by simp
next
  case (Cons c t)
  show ?case
  proof (cases "c = sep")
    case True
    then show ?thesis using Cons by (simp add: join_Nil_Cons)
  next
    case False
    obtain w ws where ws: "split_on sep t = w # ws"
      by (cases "split_on sep t") simp_all
    with False Cons show ?thesis
      by (simp add: join_Cons_Cons)
  qed
qed

lemma split_on_no_sep: "sep \<notin> set s \<Longrightarrow> split_on sep s = [s]"
  by (induction s) auto

lemma last_split_on_Cons:
  "sep \<in> set (c # cs) \<Longrightarrow> last (split_on sep (c # cs)) = last (split_on sep cs)"
proof (cases "c = sep")
  case True
  then show ?thesis by simp
next
  case False
  assume "sep \<in> set (c # cs)"
  with False have "sep \<in> set cs" by simp
  then have "length (split_on sep cs) \<ge> 2"
    by (induction cs) (auto split: list.splits)
  then obtain w v ws where "split_on sep cs = w # v # ws"
    by (cases "split_on sep cs"; cases "tl (split_on sep cs)") auto
  with False show ?thesis by simp
qed

section \<open>The stages of the recipe\<close>

lemma rx_end_missing_titles:
  "rx_end missing_titles_pattern s = (if s \<noteq> [] \<and> CHR ''/'' \<notin> set s then Some (length s) else None)"
  unfolding missing_titles_pattern_def
  by (induction s) auto

text \<open>
  The pattern of stage 3 finds the text after the last slash of the url (the whole url
  when it has no slash), and finds nothing when that text is empty.
\<close>

lemma re_search_missing_titles:
  "re_search missing_titles_pattern u =
     (if last (split_on CHR ''/'' u) = [] then None else Some (last (split_on CHR ''/'' u)))"
proof (induction u)
  case Nil
  then show ?case by (simp add: rx_end_missing_titles)
next
  case (Cons c cs)
  show ?case
  proof (cases "CHR ''/'' \<in> set (c # cs)")
    case True
    then have "re_search missing_titles_pattern (c # cs) = re_search missing_titles_pattern cs"
      by (simp add: rx_end_missing_titles)
    with True Cons show ?thesis
      by (simp only: last_split_on_Cons)
  next
    case False
    then show ?thesis
      by (auto simp add: rx_end_missing_titles split_on_no_sep)
  qed
qed

lemma missing_title_cases:
  "missing_title (Some u) =
     (if last (split_on CHR ''/'' u) = [] then Inl AttributeError
      else Inr (Some (map (\<lambda>c. if c = CHR ''-'' then CHR '' '' else c) (last (split_on CHR ''/'' u)))))"
  by (simp add: missing_title_def str_extract_def re_search_missing_titles join_split_on)


lemma read_cell_Some: "read_cell field = Some s \<Longrightarrow> s = field \<and> s \<noteq> []"
  by (simp add: read_cell_def na_values_def split: if_splits)



text \<open>When stages 2 to 5 all return, every row of the frame is keyed to its line.\<close>

lemma stages_1_to_5:
  assumes e2: "extract_host lib (add_newspaper_uid_column (read_data file_rows)
                 (extract_newspaper_uid filename)) = Inr df2"
    and e3: "add_missing_titles df2 = Inr df3"
    and e4: "generate_uids_for_rows lib df3 = Inr df4"
    and e5: "remove_new_lines_from_body df4 = Inr df5"
  shows "list_all2 (keyed lib filename) file_rows df5"
proof -
  let ?n = "extract_newspaper_uid filename"
  let ?R2 = "\<lambda>line (row :: hosted_row). \<exists>u. read_cell (csv_url line) = Some u \<and> url row = Some u \<and>
      urlparse_netloc lib u = Inr (host row) \<and> title row = read_cell (csv_title line) \<and>
      body row = read_cell (csv_body line) \<and> newspaper_uid row = ?n"
  let ?R3 = "\<lambda>line (row :: hosted_row). \<exists>u t. read_cell (csv_url line) = Some u \<and> url row = Some u \<and>
      urlparse_netloc lib u = Inr (host row) \<and> backfilled (csv_title line) u = Some t \<and>
      title row = Some t \<and> body row = read_cell (csv_body line) \<and> newspaper_uid row = ?n"
  let ?R4 = "\<lambda>line (row :: keyed_row). \<exists>u t. read_cell (csv_url line) = Some u \<and> url row = Some u \<and>
      urlparse_netloc lib u = Inr (host row) \<and> backfilled (csv_title line) u = Some t \<and>
      title row = Some t \<and> body row = read_cell (csv_body line) \<and> newspaper_uid row = ?n \<and>
      uid row = md5_hexdigest lib u"
  have r2: "list_all2 ?R2 file_rows df2"
    using e2 unfolding extract_host_def traverse_eq_Inr read_data_def add_newspaper_uid_column_def
      list_all2_map1
    by (rule list_all2_mono) (auto simp add: and_then_eq_Inr split: option.splits)
  have "list_all2 (\<lambda>x y. (if title x = None
       then and_then (missing_title (url x)) (\<lambda>t. Inr (x\<lparr>title := t\<rparr>))
       else Inr x) = Inr y) df2 df3"
    using e3 unfolding add_missing_titles_def traverse_eq_Inr .
  with r2 have r3: "list_all2 ?R3 file_rows df3"
    by (rule list_all2_trans [rotated])
      (auto simp add: and_then_eq_Inr missing_title_def str_extract_def backfilled_def
        split: if_splits option.splits)
  have "list_all2 (\<lambda>x y. (case url x of
         None \<Rightarrow> Inl AttributeError
       | Some u \<Rightarrow> Inr \<lparr>url = url x, title = title x, body = body x,
                        newspaper_uid = newspaper_uid x, host = host x,
                        uid = md5_hexdigest lib u\<rparr>) = Inr y) df3 df4"
    using e4 unfolding generate_uids_for_rows_def traverse_eq_Inr .
  with r3 have r4: "list_all2 ?R4 file_rows df4"
    by (rule list_all2_trans [rotated]) (auto split: option.splits)
  have "list_all2 (\<lambda>x y. (case body x of
         None \<Rightarrow> Inl TypeError
       | Some b \<Rightarrow> Inr (x\<lparr>body := Some (stripped_body b)\<rparr>)) = Inr y) df4 df5"
    using e5 unfolding remove_new_lines_from_body_def traverse_eq_Inr .
  with r4 show ?thesis
    by (rule list_all2_trans [rotated]) (auto simp add: keyed_def split: option.splits)
qed

text \<open>On a frame without missing cells the counts are computed for every row, in order.\<close>

lemma token_size_column_all:
  assumes "list_all notna df" and "list_all (\<lambda>row. column row \<noteq> None) df"
  shows "token_size_column lib notna column df =
           Inr (map (\<lambda>row. (uid row, n_tokens lib (the (column row)))) df)"
proof -
  from assms(1) have "filter notna df = df"
    by (simp add: list_all_iff)
  moreover from assms(2) have "list_all (\<lambda>row. (case column row of None \<Rightarrow> Inl TypeError
       | Some text \<Rightarrow> Inr (uid row, n_tokens lib text)) = Inr (uid row, n_tokens lib (the (column row)))) df"
    by (induction df) auto
  ultimately show ?thesis
    unfolding token_size_column_def by (simp add: traverse_total)
qed

lemma align_same:
  "align (map (\<lambda>row. (f row, g row)) df) (map f df) = Inr (map (\<lambda>row. Some (g row)) df)"
  by (simp add: align_def comp_def)

lemma set_drop_duplicates: "set (drop_duplicates column seen df) \<subseteq> set df"
  by (induction df arbitrary: seen) auto

lemma distinct_drop_duplicates:
  "distinct (map column (drop_duplicates column seen df)) \<and>
   set (map column (drop_duplicates column seen df)) \<inter> set seen = {}"
proof (induction df arbitrary: seen)
  case Nil
  then show ?case by simp
next
  case (Cons row rows)
  show ?case
  proof (cases "column row \<in> set seen")
    case True
    then show ?thesis using Cons [of seen] by simp
  next
    case False
    then show ?thesis using Cons [of "column row # seen"] by auto
  qed
qed


text \<open>
  The rows \<open>drop_duplicates\<close> keeps are those at the positions, in ascending order, whose
  value was not seen before and does not occur at an earlier position.
\<close>

lemma drop_duplicates_positions:
  "drop_duplicates column seen df =
     map (nth df) (filter (\<lambda>i. column (df ! i) \<notin> set seen \<and> (\<forall>j<i. column (df ! j) \<noteq> column (df ! i)))
       [0..<length df])"
proof (induction df arbitrary: seen)
  case Nil
  then show ?case by simp
next
  case (Cons row rows)
  have upt: "[0..<length (row # rows)] = 0 # map Suc [0..<length rows]"
    by (simp add: upt_conv_Cons map_Suc_upt del: upt_Suc)
  show ?case
  proof (cases "column row \<in> set seen")
    case True
    have "filter (\<lambda>i. column (rows ! i) \<notin> set seen \<and> column row \<noteq> column (rows ! i) \<and>
            (\<forall>j<i. column (rows ! j) \<noteq> column (rows ! i))) [0..<length rows] =
          filter (\<lambda>i. column (rows ! i) \<notin> set seen \<and>
            (\<forall>j<i. column (rows ! j) \<noteq> column (rows ! i))) [0..<length rows]"
      using True by (intro filter_cong) auto
    with True show ?thesis
      unfolding upt using Cons [of seen]
      by (simp add: filter_map comp_def All_less_Suc2)
  next
    case False
    have "filter (\<lambda>i. column (rows ! i) \<notin> set seen \<and> column row \<noteq> column (rows ! i) \<and>
            (\<forall>j<i. column (rows ! j) \<noteq> column (rows ! i))) [0..<length rows] =
          filter (\<lambda>i. column (rows ! i) \<notin> set (column row # seen) \<and>
            (\<forall>j<i. column (rows ! j) \<noteq> column (rows ! i))) [0..<length rows]"
      by (intro filter_cong) auto
    with False show ?thesis
      unfolding upt using Cons [of "column row # seen"]
      by (simp add: filter_map comp_def All_less_Suc2)
  qed
qed

text \<open>
  From a frame whose rows are keyed to the lines of the file, stages 6 to 8 return: the
  counts are computed for every row, stage 8 drops nothing, and the result is the frame
  of cleaned rows without its duplicate titles.
\<close>

lemma stages_6_to_8:
  assumes k5: "list_all2 (keyed lib filename) file_rows df5"
  shows "\<exists>df7. list_all2 (cleaned lib filename) file_rows df7 \<and>
     and_then (token_size_column lib notna_keyed title df5) (\<lambda>counts.
     and_then (set_n_tokens_title df5 counts) (\<lambda>df.
     and_then (token_size_column lib notna_counted body df) (\<lambda>counts.
     and_then (set_n_tokens_body df counts) (\<lambda>df.
     Inr (drop_rows_missing_data (remove_duplicate_entries df title))))))
     = Inr (remove_duplicate_entries df7 title)"
proof -
  define df6 where "df6 = map (\<lambda>row. \<lparr>url = url row, title = title row, body = body row,
      newspaper_uid = newspaper_uid row, host = host row, uid = uid row,
      n_tokens_title = Some (n_tokens lib (the (title row)))\<rparr>) df5"
  define df7 where "df7 = map (\<lambda>row. \<lparr>url = url row, title = title row, body = body row,
      newspaper_uid = newspaper_uid row, host = host row, uid = uid row,
      n_tokens_title = n_tokens_title row,
      n_tokens_body = Some (n_tokens lib (the (body row)))\<rparr>) df6"
  have all5: "list_all (\<lambda>row. url row \<noteq> None \<and> title row \<noteq> None \<and> body row \<noteq> None) df5"
    unfolding list_all_iff using list_all2_set2 [OF k5] by (auto simp add: keyed_def)
  then have e6: "token_size_column lib notna_keyed title df5 =
      Inr (map (\<lambda>row. (uid row, n_tokens lib (the (title row)))) df5)"
    by (intro token_size_column_all) (simp_all add: list_all_iff notna_keyed_def)
  have e7: "set_n_tokens_title df5 (map (\<lambda>row. (uid row, n_tokens lib (the (title row)))) df5) = Inr df6"
    unfolding set_n_tokens_title_def align_same df6_def by (simp add: map2_same)
  have "list_all (\<lambda>row. url row \<noteq> None \<and> title row \<noteq> None \<and> body row \<noteq> None \<and>
      n_tokens_title row \<noteq> None) df6"
    using all5 unfolding df6_def by (simp add: list_all_iff)
  then have e8: "token_size_column lib notna_counted body df6 =
      Inr (map (\<lambda>row. (uid row, n_tokens lib (the (body row)))) df6)"
    by (intro token_size_column_all) (simp_all add: list_all_iff notna_counted_def)
  have e9: "set_n_tokens_body df6 (map (\<lambda>row. (uid row, n_tokens lib (the (body row)))) df6) = Inr df7"
    unfolding set_n_tokens_body_def align_same df7_def by (simp add: map2_same)
  have k7: "list_all2 (cleaned lib filename) file_rows df7"
    using k5 unfolding df7_def df6_def list_all2_map2
    by (rule list_all2_mono) (simp add: cleaned_def keyed_def)
  have "list_all notna_clean df7"
    unfolding list_all_iff using list_all2_set2 [OF k7]
    by (auto simp add: cleaned_def keyed_def notna_clean_def)
  then have "filter notna_clean (remove_duplicate_entries df7 title) = remove_duplicate_entries df7 title"
    unfolding remove_duplicate_entries_def list_all_iff
    using set_drop_duplicates [of title "[]" df7] by (intro filter_True) blast
  then have "and_then (token_size_column lib notna_keyed title df5) (\<lambda>counts.
     and_then (set_n_tokens_title df5 counts) (\<lambda>df.
     and_then (token_size_column lib notna_counted body df) (\<lambda>counts.
     and_then (set_n_tokens_body df counts) (\<lambda>df.
     Inr (drop_rows_missing_data (remove_duplicate_entries df title))))))
     = Inr (remove_duplicate_entries df7 title)"
    by (simp only: e6 e7 e8 e9 and_then_Inr drop_rows_missing_data_def)
  with k7 show ?thesis
    by blast
qed



section \<open>The recipe as a whole\<close>

text \<open>
  When \<open>main\<close> returns, the frame that reaches stage 7 has one cleaned row for every
  line of the file, in the order of the file, and the result is that frame without its
  duplicate titles.
\<close>

lemma main_rows:
  assumes "main lib filename file_rows = Inr out"
  shows "\<exists>df. list_all2 (cleaned lib filename) file_rows df \<and> out = remove_duplicate_entries df title"
proof -
  from assms obtain df2 df3 df4 df5 where
    e2: "extract_host lib (add_newspaper_uid_column (read_data file_rows)
           (extract_newspaper_uid filename)) = Inr df2"
    and e3: "add_missing_titles df2 = Inr df3"
    and e4: "generate_uids_for_rows lib df3 = Inr df4"
    and e5: "remove_new_lines_from_body df4 = Inr df5"
    and rest: "and_then (token_size_column lib notna_keyed title df5) (\<lambda>counts.
     and_then (set_n_tokens_title df5 counts) (\<lambda>df.
     and_then (token_size_column lib notna_counted body df) (\<lambda>counts.
     and_then (set_n_tokens_body df counts) (\<lambda>df.
     Inr (drop_rows_missing_data (remove_duplicate_entries df title)))))) = Inr out"
    unfolding main_def Let_def by (auto simp add: and_then_eq_Inr [of "extract_host _ _"]
        and_then_eq_Inr [of "add_missing_titles _"] and_then_eq_Inr [of "generate_uids_for_rows _ _"]
        and_then_eq_Inr [of "remove_new_lines_from_body _"])
  have "list_all2 (keyed lib filename) file_rows df5"
    using e2 e3 e4 e5 by (rule stages_1_to_5)
  from stages_6_to_8 [OF this] rest show ?thesis
    by auto
qed


lemma main_row_cleaned:
  assumes "main lib filename file_rows = Inr out" and "row \<in> set out"
  shows "\<exists>line\<in>set file_rows. cleaned lib filename line row"
proof -
  from assms(1) obtain df where df: "list_all2 (cleaned lib filename) file_rows df"
      "out = remove_duplicate_entries df title"
    using main_rows by blast
  with assms(2) have "row \<in> set df"
    using set_drop_duplicates [of title "[]" df] by (auto simp add: remove_duplicate_entries_def)
  with df(1) show ?thesis
    by (rule list_all2_set2)
qed

text \<open>
  \<open>main\<close> returns only for a file in which every line has a url and a body, and a title
  or a url that does not end in a slash.
\<close>

lemma main_needs_complete_rows:
  assumes "main lib filename file_rows = Inr out" and "line \<in> set file_rows"
  shows "read_cell (csv_url line) \<noteq> None \<and> read_cell (csv_body line) \<noteq> None \<and>
         (read_cell (csv_title line) = None \<longrightarrow> last (split_on CHR ''/'' (csv_url line)) \<noteq> [])"
proof -
  from assms(1) obtain df where "list_all2 (cleaned lib filename) file_rows df"
    using main_rows by blast
  from list_all2_set1 [OF this assms(2)] obtain row where "cleaned lib filename line row"
    by blast
  then obtain u b t where *: "read_cell (csv_url line) = Some u" "read_cell (csv_body line) = Some b"
      "backfilled (csv_title line) u = Some t"
    unfolding cleaned_def keyed_def by blast
  from *(1) have "u = csv_url line"
    by (simp add: read_cell_Some)
  with *(3) have "read_cell (csv_title line) = None \<longrightarrow> last (split_on CHR ''/'' (csv_url line)) \<noteq> []"
    by (simp add: backfilled_def re_search_missing_titles split: if_splits)
  with * show ?thesis
    by simp
qed

lemma main_scenario:
  "main sample_library ''eluniversal_2020_01_01_articles.csv'' scenario = Inr scenario_cleaned"
  unfolding scenario_def scenario_cleaned_def by code_simp

section \<open>The cleaned dataset\<close>





text \<open>
  Claim C2. In every dataset that \<open>main\<close> returns no two rows have the same title. The
  frame that reaches stage 7 has one row for every line of the file, in the order of
  the file, with the url of the line and, where the line has a title, that title; the
  dataset consists of the rows of that frame at the positions that no earlier position
  shares its title with, in ascending order of position.
\<close>

theorem titles_unique_first_kept:
  assumes "main lib filename file_rows = Inr out"
  shows "distinct (map title out) \<and>
    (\<exists>df. length df = length file_rows \<and>
       (\<forall>i<length df. url (df ! i) = Some (csv_url (file_rows ! i)) \<and>
          (read_cell (csv_title (file_rows ! i)) \<noteq> None \<longrightarrow>
             title (df ! i) = Some (csv_title (file_rows ! i)))) \<and>
       out = map (nth df) (filter (\<lambda>i. \<forall>j<i. title (df ! j) \<noteq> title (df ! i)) [0..<length df]))"
proof -
  from assms obtain df where df: "list_all2 (cleaned lib filename) file_rows df"
      and out: "out = remove_duplicate_entries df title"
    using main_rows by blast
  have "distinct (map title out)"
    unfolding out remove_duplicate_entries_def using distinct_drop_duplicates [of title "[]" df] by simp
  moreover have "length df = length file_rows"
    using df by (simp add: list_all2_lengthD)
  moreover have "url (df ! i) = Some (csv_url (file_rows ! i)) \<and>
          (read_cell (csv_title (file_rows ! i)) \<noteq> None \<longrightarrow>
             title (df ! i) = Some (csv_title (file_rows ! i)))" if "i < length df" for i
  proof -
    from df that have "cleaned lib filename (file_rows ! i) (df ! i)"
      by (simp add: list_all2_conv_all_nth)
    then show ?thesis
      by (auto simp add: cleaned_def keyed_def backfilled_def dest: read_cell_Some)
  qed
  moreover have "out = map (nth df) (filter (\<lambda>i. \<forall>j<i. title (df ! j) \<noteq> title (df ! i)) [0..<length df])"
    unfolding out remove_duplicate_entries_def drop_duplicates_positions by simp
  ultimately show ?thesis
    by blast
qed

theorem titles_unique_first_kept_witness:
  "main sample_library ''eluniversal_2020_01_01_articles.csv'' scenario = Inr scenario_cleaned \<and>
   distinct (map title scenario_cleaned) \<and>
   map url scenario_cleaned = [Some ''https://n.com/x-y-z'', Some ''https://n.com/other'']"
  using main_scenario
    titles_unique_first_kept [of sample_library "''eluniversal_2020_01_01_articles.csv''"
      scenario scenario_cleaned]
  by (simp add: scenario_cleaned_def)

text \<open>
  Claim C5. The uid of a row is the digest of the bytes of its url, as the file gave it,
  and of nothing else: two rows with the same url, in one run or in two runs on
  different files, with whatever titles and bodies, have the same uid.
\<close>

theorem uid_depends_only_on_url:
  assumes "main lib filename file_rows = Inr out" and "row \<in> set out"
    and "main lib filename' file_rows' = Inr out'" and "row' \<in> set out'"
    and "url row = url row'"
  shows "uid row = uid row' \<and>
         (\<exists>line\<in>set file_rows. url row = Some (csv_url line) \<and>
            uid row = md5_hexdigest lib (csv_url line))"
proof -
  from assms(1,2) obtain line where line: "line \<in> set file_rows" "cleaned lib filename line row"
    using main_row_cleaned by blast
  from assms(3,4) obtain line' where "cleaned lib filename' line' row'"
    using main_row_cleaned by blast
  with line assms(5) show ?thesis
    by (auto simp add: cleaned_def keyed_def dest: read_cell_Some)
qed

theorem uid_depends_only_on_url_witness:
  "main sample_library ''eluniversal_2020_01_01_articles.csv'' scenario = Inr scenario_cleaned \<and>
   main sample_library ''elpais_2020_02_02_articles.csv''
     [\<lparr>csv_url = ''https://n.com/other'', csv_title = ''Otro titulo'', csv_body = ''Otro\<newline>cuerpo''\<rparr>]
   = Inr [\<lparr>url = Some ''https://n.com/other'', title = Some ''Otro titulo'', body = Some ''Otro cuerpo'',
           newspaper_uid = ''elpais'', host = ''n.com'', uid = ''md5:https://n.com/other'',
           n_tokens_title = Some 2, n_tokens_body = Some 2\<rparr>] \<and>
   uid (scenario_cleaned ! 1) = ''md5:https://n.com/other''"
proof -
  let ?other = "\<lparr>url = Some ''https://n.com/other'', title = Some ''Otro titulo'',
      body = Some ''Otro cuerpo'', newspaper_uid = ''elpais'', host = ''n.com'',
      uid = ''md5:https://n.com/other'', n_tokens_title = Some 2, n_tokens_body = Some 2\<rparr>"
  have other: "main sample_library ''elpais_2020_02_02_articles.csv''
     [\<lparr>csv_url = ''https://n.com/other'', csv_title = ''Otro titulo'', csv_body = ''Otro\<newline>cuerpo''\<rparr>]
   = Inr [?other]"
    by code_simp
  have "uid (scenario_cleaned ! 1) = uid ?other"
    using uid_depends_only_on_url [OF main_scenario _ other, of "scenario_cleaned ! 1" ?other]
    by (simp add: scenario_cleaned_def)
  with main_scenario other show ?thesis
    by simp
qed



section \<open>Rows the recipe cannot complete\<close>

text \<open>
  Claim C8 says that a row without a title gets the last segment of its url, hyphens
  turned into spaces, and that a row whose url has no such segment stays without a
  title and is dropped at stage 8. The first half is what the recipe does. For a url
  that ends in a slash the recipe raises \<^verbatim>\<open>AttributeError\<close> at stage 3 instead, and
  returns no dataset.
\<close>

theorem backfill_without_segment_raises:
  "main sample_library ''eluniversal_2020_01_01_articles.csv''
     [\<lparr>csv_url = ''https://n.com/x-y-z'', csv_title = '''', csv_body = ''Texto valido''\<rparr>]
   = Inr [\<lparr>url = Some ''https://n.com/x-y-z'', title = Some ''x y z'', body = Some ''Texto valido'',
           newspaper_uid = ''eluniversal'', host = ''n.com'', uid = ''md5:https://n.com/x-y-z'',
           n_tokens_title = Some 2, n_tokens_body = Some 2\<rparr>] \<and>
   main sample_library ''eluniversal_2020_01_01_articles.csv''
     [\<lparr>csv_url = ''https://n.com/seccion/'', csv_title = '''', csv_body = ''Texto valido''\<rparr>]
   = Inl AttributeError"
  by code_simp





end
